theory Spec2Isabelle
  imports Complex_Main
begin

section \<open>face-detection.js: the smile detector\<close>

text \<open>
  JavaScript numbers are modelled as exact reals (\<open>real\<close>); timestamps of
  \<open>Date.now()\<close> and scores as \<open>int\<close>. The fields \<open>bufferSize\<close>,
  \<open>triggerThreshold\<close> and \<open>resetThreshold\<close> are assigned once, in the constructor,
  and never written again: they are constants here.
\<close>

definition bufferSize :: nat where
  "bufferSize = 5"

definition triggerThreshold :: real where
  "triggerThreshold = 0.6"

definition resetThreshold :: real where
  "resetThreshold = 0.4"

text \<open>
  The detector's fields that the detection code reads or writes. \<open>onSmileChange\<close> is
  \<open>True\<close> when a callback is registered (the field is \<open>null\<close> after the constructor and
  is set by the game once \<open>initialize\<close> has returned).
\<close>

record FaceDetector =
  smileScore :: real
  isSmiling :: bool
  smileBuffer :: "real list"
  onSmileChange :: bool

definition FaceDetector_new :: FaceDetector where
  "FaceDetector_new =
     \<lparr>smileScore = 0, isSmiling = False, smileBuffer = [], onSmileChange = False\<rparr>"

text \<open>
  One blendshape category \<open>{categoryName, score}\<close> is a pair; \<open>faceBlendshapes\<close> of a
  detection result is absent (\<open>None\<close>) or a list of faces, each with its categories.
\<close>

type_synonym category = "string \<times> real"

record results =
  faceBlendshapes :: "category list list option"

definition getBlendshapeScore :: "category list \<Rightarrow> string \<Rightarrow> real" where
  "getBlendshapeScore blendshapes name =
     (case find (\<lambda>b. fst b = name) blendshapes of
        Some shape \<Rightarrow> snd shape
      | None \<Rightarrow> 0)"

text \<open>
  \<open>detectSmile\<close> returns the detector after the call and the argument of the
  \<open>onSmileChange\<close> invocation, \<open>None\<close> when the callback is not invoked.
\<close>

definition pushScore :: "real \<Rightarrow> real list \<Rightarrow> real list" where
  "pushScore sc buf =
     (let pushed = buf @ [sc]
      in if length pushed > bufferSize then tl pushed else pushed)"

definition hysteresis :: "bool \<Rightarrow> real \<Rightarrow> bool" where
  "hysteresis smiling smoothed =
     (if \<not> smiling then (if smoothed > triggerThreshold then True else smiling)
      else (if smoothed < resetThreshold then False else smiling))"

definition detectSmile :: "real \<Rightarrow> FaceDetector \<Rightarrow> FaceDetector \<times> bool option" where
  "detectSmile sc d =
     (let buf = pushScore sc (smileBuffer d);
          smoothed = foldl (+) 0 buf / real (length buf);
          wasSmiling = isSmiling d;
          nowSmiling = hysteresis wasSmiling smoothed;
          d' = d\<lparr>smileBuffer := buf, smileScore := smoothed, isSmiling := nowSmiling\<rparr>
      in (d', if wasSmiling \<noteq> nowSmiling \<and> onSmileChange d
              then Some nowSmiling else None))"

definition processResults :: "results \<Rightarrow> FaceDetector \<Rightarrow> FaceDetector \<times> bool option" where
  "processResults r d =
     (case faceBlendshapes r of
        None \<Rightarrow> (d\<lparr>smileScore := 0\<rparr>, None)
      | Some [] \<Rightarrow> (d\<lparr>smileScore := 0\<rparr>, None)
      | Some (blendshapes # _) \<Rightarrow>
          (let smileLeft = getBlendshapeScore blendshapes ''mouthSmileLeft'';
               smileRight = getBlendshapeScore blendshapes ''mouthSmileRight''
           in detectSmile ((smileLeft + smileRight) / 2) d))"

text \<open>The test of \<open>processResults\<close> for a frame without a face.\<close>

definition noFace :: "results \<Rightarrow> bool" where
  "noFace r = (case faceBlendshapes r of None \<Rightarrow> True | Some faces \<Rightarrow> length faces = 0)"

text \<open>The detection loop: one \<open>processResults\<close> per frame, in order.\<close>

fun processAll :: "results list \<Rightarrow> FaceDetector \<Rightarrow> FaceDetector" where
  "processAll [] d = d"
| "processAll (r # rs) d = processAll rs (fst (processResults r d))"

fun processCallbacks :: "results list \<Rightarrow> FaceDetector \<Rightarrow> bool option list" where
  "processCallbacks [] d = []"
| "processCallbacks (r # rs) d =
     snd (processResults r d) # processCallbacks rs (fst (processResults r d))"

text \<open>A run of \<open>detectSmile\<close> over composite scores: the final detector, and per call
  the detector before it, the detector after it and the callback argument.\<close>

fun detectAll :: "real list \<Rightarrow> FaceDetector \<Rightarrow> FaceDetector" where
  "detectAll [] d = d"
| "detectAll (sc # scs) d = detectAll scs (fst (detectSmile sc d))"

fun trace :: "real list \<Rightarrow> FaceDetector \<Rightarrow> (FaceDetector \<times> FaceDetector \<times> bool option) list" where
  "trace [] d = []"
| "trace (sc # scs) d =
     (d, fst (detectSmile sc d), snd (detectSmile sc d)) # trace scs (fst (detectSmile sc d))"

text \<open>The gesture event of a call: the detector went from Idle to Active.\<close>

definition fired :: "FaceDetector \<times> FaceDetector \<times> bool option \<Rightarrow> bool" where
  "fired e = (\<not> isSmiling (fst e) \<and> isSmiling (fst (snd e)))"

definition smoothedOf :: "FaceDetector \<times> FaceDetector \<times> bool option \<Rightarrow> real" where
  "smoothedOf e = smileScore (fst (snd e))"

section \<open>game.js: the game\<close>

text \<open>The game constants, assigned once in the constructor.\<close>

definition SCREEN_WIDTH :: real where
  "SCREEN_WIDTH = 640"

definition SCREEN_HEIGHT :: real where
  "SCREEN_HEIGHT = 480"

definition GRAVITY :: real where
  "GRAVITY = 0.2"

definition FLAP_STRENGTH :: real where
  "FLAP_STRENGTH = - 7"

definition OBSTACLE_SPEED :: real where
  "OBSTACLE_SPEED = 2.5"

definition OBSTACLE_WIDTH :: real where
  "OBSTACLE_WIDTH = 80"

definition GAP_SIZE :: real where
  "GAP_SIZE = 200"

definition BIRD_SIZE :: real where
  "BIRD_SIZE = 60"

definition BIRD_X :: real where
  "BIRD_X = 150"

definition SPAWN_DISTANCE :: real where
  "SPAWN_DISTANCE = 300"

definition MIN_FLAP_INTERVAL :: int where
  "MIN_FLAP_INTERVAL = 500"

definition maxRounds :: int where
  "maxRounds = 3"

text \<open>
  An obstacle \<open>{x, gapTop, gapBottom, passed, id}\<close>; the fields \<open>x\<close> and \<open>id\<close> are
  named \<open>obs_x\<close> and \<open>obs_id\<close> here.
\<close>

record obstacle =
  obs_x :: real
  gapTop :: real
  gapBottom :: real
  passed :: bool
  obs_id :: int

text \<open>
  The game's state. Of the page, only the three class flags that \<open>handleGameOver\<close>
  and \<open>showCTAScreen\<close> change are kept: whether the round-over overlay carries
  \<open>hidden\<close>, and whether the game screen and the CTA screen carry \<open>active\<close>.
  Drawing, sound and analytics are left out.
\<close>

record FlappyGame =
  birdY :: real
  birdVelocity :: real
  obstacles :: "obstacle list"
  score :: int
  gameStarted :: bool
  gameOver :: bool
  lastFlapTime :: int
  currentRound :: int
  bestScore :: int
  lastGameLoopTime :: real
  roundOverOverlay_hidden :: bool
  gameScreen_active :: bool
  ctaScreen_active :: bool

text \<open>The constructor; the three class flags come from the page, and
  \<open>lastGameLoopTime\<close>, which \<open>gameLoop\<close> reads as 0 while it is undefined, starts at 0.\<close>

definition FlappyGame_new :: "bool \<Rightarrow> bool \<Rightarrow> bool \<Rightarrow> FlappyGame" where
  "FlappyGame_new overlayHidden gameActive ctaActive =
     \<lparr>birdY = SCREEN_HEIGHT / 2, birdVelocity = 0, obstacles = [], score = 0,
      gameStarted = False, gameOver = False, lastFlapTime = 0,
      currentRound = 1, bestScore = 0, lastGameLoopTime = 0,
      roundOverOverlay_hidden = overlayHidden, gameScreen_active = gameActive,
      ctaScreen_active = ctaActive\<rparr>"

definition beginGameplay :: "FlappyGame \<Rightarrow> FlappyGame" where
  "beginGameplay g =
     g\<lparr>birdY := SCREEN_HEIGHT / 2, birdVelocity := 0, obstacles := [], score := 0,
       gameStarted := True, gameOver := False\<rparr>"

text \<open>\<open>flap\<close>, with \<open>now\<close> the value of \<open>Date.now()\<close>.\<close>

definition flap :: "int \<Rightarrow> FlappyGame \<Rightarrow> FlappyGame" where
  "flap now g =
     (if now - lastFlapTime g < MIN_FLAP_INTERVAL then g
      else if \<not> gameStarted g \<or> gameOver g then g
      else g\<lparr>birdVelocity := FLAP_STRENGTH, lastFlapTime := now\<rparr>)"

text \<open>The callback that \<open>startGame\<close> registers as \<open>onSmileChange\<close>.\<close>

definition smileCallback :: "bool \<Rightarrow> int \<Rightarrow> FlappyGame \<Rightarrow> FlappyGame" where
  "smileCallback smiling now g = (if smiling then flap now g else g)"

text \<open>
  The invocation \<open>this.onSmileChange(this.isSmiling)\<close> of \<open>detectSmile\<close>, with the
  game's callback registered: \<open>cb\<close> is the argument, \<open>None\<close> when there is no
  invocation.
\<close>

definition deliver :: "bool option \<Rightarrow> int \<Rightarrow> FlappyGame \<Rightarrow> FlappyGame" where
  "deliver cb now g = (case cb of None \<Rightarrow> g | Some smiling \<Rightarrow> smileCallback smiling now g)"

subsection \<open>update\<close>

text \<open>Bird physics and the clamp of the bird's position.\<close>

definition birdPhysics :: "FlappyGame \<Rightarrow> FlappyGame" where
  "birdPhysics g =
     (let v1 = birdVelocity g + GRAVITY;
          v2 = (if v1 > 10 then 10 else v1);
          y1 = birdY g + v2;
          birdRadius = BIRD_SIZE / 2;
          g1 = g\<lparr>birdVelocity := v2, birdY := y1\<rparr>;
          g2 = (if birdY g1 < birdRadius
                then g1\<lparr>birdY := birdRadius, birdVelocity := 0\<rparr> else g1)
      in if birdY g2 > SCREEN_HEIGHT - birdRadius
         then g2\<lparr>birdY := SCREEN_HEIGHT - birdRadius, gameOver := True\<rparr> else g2)"

text \<open>\<open>spawnObstacle\<close>, with \<open>rnd\<close> the value of \<open>Math.random()\<close> and \<open>now\<close> that of
  \<open>Date.now()\<close>.\<close>

definition spawnObstacle :: "real \<Rightarrow> int \<Rightarrow> FlappyGame \<Rightarrow> FlappyGame" where
  "spawnObstacle rnd now g =
     (let minGapTop = 80;
          maxGapTop = SCREEN_HEIGHT - GAP_SIZE - 80;
          top = minGapTop + rnd * (maxGapTop - minGapTop);
          bottom = top + GAP_SIZE
      in g\<lparr>obstacles := obstacles g @
            [\<lparr>obs_x = SCREEN_WIDTH, gapTop = top, gapBottom = bottom,
              passed = False, obs_id = now\<rparr>]\<rparr>)"

definition spawnStep :: "real \<Rightarrow> int \<Rightarrow> FlappyGame \<Rightarrow> FlappyGame" where
  "spawnStep rnd now g =
     (if length (obstacles g) = 0 then spawnObstacle rnd now g
      else (let lastObstacle = last (obstacles g)
            in if SCREEN_WIDTH - obs_x lastObstacle > SPAWN_DISTANCE
               then spawnObstacle rnd now g else g))"

text \<open>
  The body of the obstacle loop at index \<open>i\<close>: the obstacle is changed in place, and
  spliced out when it has left the screen. The loop runs \<open>i\<close> from
  \<open>length - 1\<close> down to \<open>0\<close>.
\<close>

definition stepObstacle :: "nat \<Rightarrow> FlappyGame \<Rightarrow> FlappyGame" where
  "stepObstacle i g =
     (let obs = obstacles g ! i;
          obs1 = obs\<lparr>obs_x := obs_x obs - OBSTACLE_SPEED\<rparr>;
          justPassed = (\<not> passed obs1 \<and> obs_x obs1 + OBSTACLE_WIDTH < BIRD_X);
          obs2 = (if justPassed then obs1\<lparr>passed := True\<rparr> else obs1);
          g1 = (if justPassed then g\<lparr>score := score g + 10\<rparr> else g);
          g2 = g1\<lparr>obstacles := (obstacles g1)[i := obs2]\<rparr>
      in if obs_x obs2 + OBSTACLE_WIDTH < 0
         then g2\<lparr>obstacles := take i (obstacles g2) @ drop (Suc i) (obstacles g2)\<rparr>
         else g2)"

fun obstacleLoop :: "nat \<Rightarrow> FlappyGame \<Rightarrow> FlappyGame" where
  "obstacleLoop 0 g = g"
| "obstacleLoop (Suc i) g = obstacleLoop i (stepObstacle i g)"

text \<open>\<open>checkCollision\<close>: the shrunk box of the bird, the screen-bounds test, then the
  loop over the obstacles, which returns at the first hit.\<close>

definition safeTop :: "FlappyGame \<Rightarrow> real" where
  "safeTop g = (birdY g - BIRD_SIZE / 2) + BIRD_SIZE * 0.1"

definition safeBottom :: "FlappyGame \<Rightarrow> real" where
  "safeBottom g = (birdY g + BIRD_SIZE / 2) - BIRD_SIZE * 0.1"

definition safeLeft :: real where
  "safeLeft = (BIRD_X - BIRD_SIZE / 2) + BIRD_SIZE * 0.1"

definition safeRight :: real where
  "safeRight = (BIRD_X + BIRD_SIZE / 2) - BIRD_SIZE * 0.1"

definition outOfScreen :: "FlappyGame \<Rightarrow> bool" where
  "outOfScreen g = (safeTop g < 0 \<or> safeBottom g > SCREEN_HEIGHT)"

fun hitsObstacle :: "FlappyGame \<Rightarrow> obstacle list \<Rightarrow> bool" where
  "hitsObstacle g [] = False"
| "hitsObstacle g (obs # rest) =
     (let tubeLeft = obs_x obs;
          tubeRight = obs_x obs + OBSTACLE_WIDTH
      in if safeRight > tubeLeft \<and> safeLeft < tubeRight
         then (if safeTop g < gapTop obs \<or> safeBottom g > gapBottom obs
               then True else hitsObstacle g rest)
         else hitsObstacle g rest)"

definition checkCollision :: "FlappyGame \<Rightarrow> bool" where
  "checkCollision g = (if outOfScreen g then True else hitsObstacle g (obstacles g))"

text \<open>\<open>update\<close>: the state when \<open>checkCollision\<close> is called, and the whole tick.\<close>

definition beforeCollisionCheck :: "real \<Rightarrow> int \<Rightarrow> FlappyGame \<Rightarrow> FlappyGame" where
  "beforeCollisionCheck rnd now g =
     (let g1 = birdPhysics g;
          g2 = spawnStep rnd now g1
      in obstacleLoop (length (obstacles g2)) g2)"

definition update :: "real \<Rightarrow> int \<Rightarrow> FlappyGame \<Rightarrow> FlappyGame" where
  "update rnd now g =
     (let g3 = beforeCollisionCheck rnd now g
      in if checkCollision g3 then g3\<lparr>gameOver := True\<rparr> else g3)"

subsection \<open>The end of a round\<close>

definition showCTAScreen :: "FlappyGame \<Rightarrow> FlappyGame" where
  "showCTAScreen g = g\<lparr>gameScreen_active := False, ctaScreen_active := True\<rparr>"

definition handleGameOver :: "FlappyGame \<Rightarrow> FlappyGame" where
  "handleGameOver g =
     (let g1 = g\<lparr>gameStarted := False\<rparr>;
          g2 = (if score g1 > bestScore g1 then g1\<lparr>bestScore := score g1\<rparr> else g1)
      in if currentRound g2 < maxRounds
         then g2\<lparr>roundOverOverlay_hidden := False\<rparr>
         else showCTAScreen g2)"

text \<open>
  \<open>gameLoop\<close> at time \<open>currentTime\<close>: nothing when the game has not started or the
  frame comes too soon, otherwise one \<open>update\<close> and, when it set \<open>gameOver\<close>,
  \<open>handleGameOver\<close>.
\<close>

definition gameLoop :: "real \<Rightarrow> real \<Rightarrow> int \<Rightarrow> FlappyGame \<Rightarrow> FlappyGame" where
  "gameLoop currentTime rnd now g =
     (if \<not> gameStarted g then g
      else (let elapsed = currentTime - lastGameLoopTime g
            in if elapsed < 1000 / 30 then g
               else (let g1 = update rnd now (g\<lparr>lastGameLoopTime := currentTime\<rparr>)
                     in if gameOver g1 then handleGameOver g1 else g1)))"

text \<open>An interleaving of physics ticks and flap requests.\<close>

datatype input = Tick real int | FlapRequest int

fun simulate :: "input list \<Rightarrow> FlappyGame \<Rightarrow> FlappyGame" where
  "simulate [] g = g"
| "simulate (Tick rnd now # ins) g = simulate ins (update rnd now g)"
| "simulate (FlapRequest now # ins) g = simulate ins (flap now g)"

section \<open>Unfolding the constants\<close>

lemmas detector_defs = detectSmile_def pushScore_def hysteresis_def bufferSize_def
  triggerThreshold_def resetThreshold_def FaceDetector_new_def Let_def

lemmas game_consts = SCREEN_WIDTH_def SCREEN_HEIGHT_def GRAVITY_def FLAP_STRENGTH_def
  OBSTACLE_SPEED_def OBSTACLE_WIDTH_def GAP_SIZE_def BIRD_SIZE_def BIRD_X_def
  SPAWN_DISTANCE_def MIN_FLAP_INTERVAL_def maxRounds_def

section \<open>The smoothing buffer\<close>

lemma foldl_plus_sum_list: "foldl (+) a xs = a + sum_list (xs::real list)"
  by (induction xs arbitrary: a) simp_all

lemma pushScore_drop:
  "length buf \<le> 5 \<Longrightarrow> pushScore sc buf = drop (Suc (length buf) - 5) (buf @ [sc])"
proof (cases "length buf = 5")
  case True
  then have "pushScore sc buf = tl (buf @ [sc])"
    by (simp add: pushScore_def bufferSize_def)
  also have "\<dots> = drop (Suc 0) (buf @ [sc])"
    by (simp only: drop_Suc drop_0)
  finally show ?thesis using True by simp
next
  case False
  assume "length buf \<le> 5"
  with False have "length buf < 5" by simp
  then show ?thesis
    by (simp add: pushScore_def bufferSize_def)
qed

lemma window_slide:
  "drop (Suc (length (drop (length L - 5) L)) - 5) (drop (length L - 5) L @ [sc]) =
   drop (Suc (length L) - 5) (L @ [sc])"
proof (cases "length L \<le> 5")
  case True
  then show ?thesis by simp
next
  case False
  then have n: "5 < length L" by simp
  then have "length (drop (length L - 5) L) = 5" by simp
  then have "drop (Suc (length (drop (length L - 5) L)) - 5) (drop (length L - 5) L @ [sc]) =
      drop (Suc 0) (drop (length L - 5) (L @ [sc]))"
    using n by simp
  also have "\<dots> = drop (Suc 0 + (length L - 5)) (L @ [sc])"
    by (simp only: drop_drop)
  also have "Suc 0 + (length L - 5) = Suc (length L) - 5"
    using n by arith
  finally show ?thesis .
qed

lemma detectSmile_buffer: "smileBuffer (fst (detectSmile sc d)) = pushScore sc (smileBuffer d)"
  by (simp add: detectSmile_def Let_def)

lemma detectSmile_score:
  "smileScore (fst (detectSmile sc d)) =
     sum_list (smileBuffer (fst (detectSmile sc d))) /
       real (length (smileBuffer (fst (detectSmile sc d))))"
  by (simp add: detectSmile_def Let_def foldl_plus_sum_list)

lemma detectAll_snoc: "detectAll (scs @ [sc]) d = fst (detectSmile sc (detectAll scs d))"
  by (induction scs arbitrary: d) simp_all

lemma detectAll_buffer:
  "length (smileBuffer d) \<le> 5 \<Longrightarrow>
     smileBuffer (detectAll scs d) =
       drop (length (smileBuffer d @ scs) - 5) (smileBuffer d @ scs)"
proof (induction scs rule: rev_induct)
  case Nil
  then show ?case by simp
next
  case (snoc sc scs)
  let ?b = "smileBuffer d @ scs"
  have len: "length (smileBuffer (detectAll scs d)) \<le> 5"
    using snoc by simp
  have "smileBuffer (detectAll (scs @ [sc]) d) = pushScore sc (drop (length ?b - 5) ?b)"
    using snoc by (simp add: detectAll_snoc detectSmile_buffer)
  also have "\<dots> =
      drop (Suc (length (drop (length ?b - 5) ?b)) - 5) (drop (length ?b - 5) ?b @ [sc])"
    using len snoc by (intro pushScore_drop) simp
  also have "\<dots> = drop (length (?b @ [sc]) - 5) (?b @ [sc])"
    using window_slide [of ?b sc] by simp
  finally show ?case by simp
qed

text \<open>
  Claim C3. Starting from a new detector, after each call of \<open>detectSmile\<close> (the
  sequence ingested so far is \<open>scs @ [sc]\<close>, of length \<open>n\<close>) the buffer has at most 5
  entries, exactly \<open>min n 5\<close> of them, it is the last \<open>min n 5\<close> values ingested in
  their order, and the smoothed score is the sum of the buffer divided by its length.
\<close>

theorem smoothing_buffer_window:
  "length (smileBuffer (detectAll (scs @ [sc]) FaceDetector_new)) \<le> 5 \<and>
   length (smileBuffer (detectAll (scs @ [sc]) FaceDetector_new)) = min (length (scs @ [sc])) 5 \<and>
   smileBuffer (detectAll (scs @ [sc]) FaceDetector_new) =
     drop (length (scs @ [sc]) - min (length (scs @ [sc])) 5) (scs @ [sc]) \<and>
   smileScore (detectAll (scs @ [sc]) FaceDetector_new) =
     sum_list (smileBuffer (detectAll (scs @ [sc]) FaceDetector_new)) /
       real (length (smileBuffer (detectAll (scs @ [sc]) FaceDetector_new)))"
proof -
  have b: "smileBuffer (detectAll (scs @ [sc]) FaceDetector_new) =
      drop (length (scs @ [sc]) - 5) (scs @ [sc])"
    using detectAll_buffer [of FaceDetector_new "scs @ [sc]"]
    by (simp add: FaceDetector_new_def)
  have m: "length (scs @ [sc]) - min (length (scs @ [sc])) 5 = length (scs @ [sc]) - 5"
    by (simp add: min_def)
  have s: "smileScore (detectAll (scs @ [sc]) FaceDetector_new) =
     sum_list (smileBuffer (detectAll (scs @ [sc]) FaceDetector_new)) /
       real (length (smileBuffer (detectAll (scs @ [sc]) FaceDetector_new)))"
    unfolding detectAll_snoc by (rule detectSmile_score)
  show ?thesis
    using s unfolding b m by (auto simp: min_def)
qed

theorem smoothing_buffer_window_witness:
  "smileBuffer (detectAll ([0.1, 0.2, 0.3, 0.4, 0.5, 0.6] @ [0.7]) FaceDetector_new) =
     [0.3, 0.4, 0.5, 0.6, 0.7] \<and>
   smileScore (detectAll ([0.1, 0.2, 0.3, 0.4, 0.5, 0.6] @ [0.7]) FaceDetector_new) = 0.5"
  using smoothing_buffer_window [of "[0.1, 0.2, 0.3, 0.4, 0.5, 0.6]" "0.7"]
  by simp

section \<open>Hysteresis\<close>

lemma detectSmile_state:
  "isSmiling (fst (detectSmile sc d)) =
     hysteresis (isSmiling d) (smileScore (fst (detectSmile sc d)))"
  by (simp add: detectSmile_def Let_def)

lemma detectSmile_callback:
  "snd (detectSmile sc d) =
     (if isSmiling d \<noteq> isSmiling (fst (detectSmile sc d)) \<and> onSmileChange d
      then Some (isSmiling (fst (detectSmile sc d))) else None)"
  by (simp add: detectSmile_def Let_def)

lemma hysteresis_dead_zone:
  "0.4 \<le> s \<Longrightarrow> s \<le> 0.6 \<Longrightarrow> hysteresis b s = b"
  by (simp add: hysteresis_def triggerThreshold_def resetThreshold_def)

lemma hysteresis_rise: "\<not> b \<Longrightarrow> hysteresis b s \<longleftrightarrow> 0.6 < s"
  by (simp add: hysteresis_def triggerThreshold_def)

lemma hysteresis_fall: "b \<Longrightarrow> hysteresis b s \<longleftrightarrow> \<not> s < 0.4"
  by (simp add: hysteresis_def resetThreshold_def)

lemma trace_length: "length (trace scs d) = length scs"
  by (induction scs arbitrary: d) simp_all

lemma trace_append: "trace (xs @ ys) d = trace xs d @ trace ys (detectAll xs d)"
  by (induction xs arbitrary: d) simp_all

lemma trace_split:
  assumes "trace scs d = es @ fs"
  obtains xs ys where "scs = xs @ ys" "es = trace xs d" "fs = trace ys (detectAll xs d)"
proof -
  let ?xs = "take (length es) scs" and ?ys = "drop (length es) scs"
  have le: "length es \<le> length scs"
    using arg_cong [OF assms, of length] by (simp add: trace_length)
  have "trace (?xs @ ?ys) d = es @ fs" using assms by simp
  then have "trace ?xs d @ trace ?ys (detectAll ?xs d) = es @ fs"
    by (simp only: trace_append)
  moreover have "length (trace ?xs d) = length es"
    using le by (simp add: trace_length)
  ultimately have "trace ?xs d = es" "trace ?ys (detectAll ?xs d) = fs"
    by simp_all
  then show thesis using that [of ?xs ?ys] by simp
qed

lemma trace_Cons:
  assumes "trace scs d = e # fs"
  obtains sc ys where "scs = sc # ys"
    "e = (d, fst (detectSmile sc d), snd (detectSmile sc d))"
    "fs = trace ys (fst (detectSmile sc d))"
  using assms by (cases scs) auto

lemma trace_elem:
  "e \<in> set (trace scs d) \<Longrightarrow>
     \<exists>sc d0. e = (d0, fst (detectSmile sc d0), snd (detectSmile sc d0))"
  by (induction scs arbitrary: d) auto

lemma stays_active:
  assumes "isSmiling d" "\<forall>e\<in>set (trace scs d). \<not> smoothedOf e < 0.4"
  shows "isSmiling (detectAll scs d) \<and> (\<forall>e\<in>set (trace scs d). \<not> fired e)"
  using assms
proof (induction scs arbitrary: d)
  case Nil
  then show ?case by simp
next
  case (Cons sc scs)
  let ?d' = "fst (detectSmile sc d)"
  from Cons.prems have "\<not> smileScore ?d' < 0.4"
    by (simp add: smoothedOf_def)
  with Cons.prems(1) have act: "isSmiling ?d'"
    by (simp add: detectSmile_state hysteresis_fall)
  from Cons.prems have "\<forall>e\<in>set (trace scs ?d'). \<not> smoothedOf e < 0.4"
    by simp
  from Cons.IH [OF act this] Cons.prems(1) show ?case
    by (simp add: fired_def)
qed

lemma fired_in_trace:
  assumes "trace scs d = es @ e # fs" "fired e"
  shows "0.6 < smoothedOf e \<and> (\<exists>ys. fs = trace ys (fst (snd e))) \<and> isSmiling (fst (snd e))"
proof -
  from assms(1) obtain xs ys where "e # fs = trace ys (detectAll xs d)"
    by (elim trace_split) simp
  then obtain sc zs where e: "e = (detectAll xs d, fst (detectSmile sc (detectAll xs d)),
      snd (detectSmile sc (detectAll xs d)))"
    and fs: "fs = trace zs (fst (detectSmile sc (detectAll xs d)))"
    by (metis trace_Cons)
  from assms(2) e have idle: "\<not> isSmiling (detectAll xs d)"
    and act: "isSmiling (fst (detectSmile sc (detectAll xs d)))"
    by (simp_all add: fired_def)
  from act idle have "0.6 < smileScore (fst (detectSmile sc (detectAll xs d)))"
    using detectSmile_state [of sc "detectAll xs d"] by (simp add: hysteresis_rise)
  with e fs act show ?thesis
    by (auto simp: smoothedOf_def)
qed

lemma falls_before_next:
  assumes "isSmiling d" "trace scs d = mid @ e2 # post" "fired e2"
  shows "\<exists>m\<in>set mid. smoothedOf m < 0.4 \<and> isSmiling (fst m) \<and> \<not> isSmiling (fst (snd m))"
  using assms
proof (induction scs arbitrary: d mid)
  case Nil
  then show ?case by simp
next
  case (Cons sc scs)
  let ?d' = "fst (detectSmile sc d)"
  show ?case
  proof (cases mid)
    case Nil
    with Cons.prems have "fst e2 = d" by auto
    with Cons.prems show ?thesis by (simp add: fired_def)
  next
    case (Cons m mid')
    with Cons.prems have m: "m = (d, ?d', snd (detectSmile sc d))"
      and rest: "trace scs ?d' = mid' @ e2 # post"
      by simp_all
    show ?thesis
    proof (cases "isSmiling ?d'")
      case True
      from Cons.IH [OF True rest Cons.prems(3)] show ?thesis
        using \<open>mid = m # mid'\<close> by auto
    next
      case False
      with Cons.prems(1) have "smileScore ?d' < 0.4"
        using detectSmile_state [of sc d] by (simp add: hysteresis_fall)
      with False Cons.prems(1) m \<open>mid = m # mid'\<close> show ?thesis
        by (simp add: smoothedOf_def)
    qed
  qed
qed

section \<open>The game: what a tick leaves alone\<close>

lemma stepObstacle_bird:
  "birdY (stepObstacle i g) = birdY g"
  "birdVelocity (stepObstacle i g) = birdVelocity g"
  "lastFlapTime (stepObstacle i g) = lastFlapTime g"
  "gameOver (stepObstacle i g) = gameOver g"
  "gameStarted (stepObstacle i g) = gameStarted g"
  by (simp_all add: stepObstacle_def Let_def)

lemma obstacleLoop_bird:
  "birdY (obstacleLoop n g) = birdY g \<and>
   birdVelocity (obstacleLoop n g) = birdVelocity g \<and>
   lastFlapTime (obstacleLoop n g) = lastFlapTime g \<and>
   gameOver (obstacleLoop n g) = gameOver g \<and>
   gameStarted (obstacleLoop n g) = gameStarted g"
  by (induction n arbitrary: g) (simp_all add: stepObstacle_bird)

lemma spawnStep_bird:
  "birdY (spawnStep rnd now g) = birdY g"
  "birdVelocity (spawnStep rnd now g) = birdVelocity g"
  "lastFlapTime (spawnStep rnd now g) = lastFlapTime g"
  "gameOver (spawnStep rnd now g) = gameOver g"
  "gameStarted (spawnStep rnd now g) = gameStarted g"
  by (simp_all add: spawnStep_def spawnObstacle_def Let_def)

lemma beforeCollisionCheck_bird:
  "birdY (beforeCollisionCheck rnd now g) = birdY (birdPhysics g)"
  "birdVelocity (beforeCollisionCheck rnd now g) = birdVelocity (birdPhysics g)"
  "lastFlapTime (beforeCollisionCheck rnd now g) = lastFlapTime (birdPhysics g)"
  "gameOver (beforeCollisionCheck rnd now g) = gameOver (birdPhysics g)"
  "gameStarted (beforeCollisionCheck rnd now g) = gameStarted (birdPhysics g)"
  by (simp_all add: beforeCollisionCheck_def Let_def obstacleLoop_bird spawnStep_bird)

lemma update_bird:
  "birdY (update rnd now g) = birdY (birdPhysics g)"
  "birdVelocity (update rnd now g) = birdVelocity (birdPhysics g)"
  "lastFlapTime (update rnd now g) = lastFlapTime (birdPhysics g)"
  "gameStarted (update rnd now g) = gameStarted (birdPhysics g)"
  by (simp_all add: update_def Let_def beforeCollisionCheck_bird)

lemma update_gameOver: "gameOver (birdPhysics g) \<Longrightarrow> gameOver (update rnd now g)"
  by (simp add: update_def Let_def beforeCollisionCheck_bird)

lemma birdPhysics_velocity:
  "birdVelocity (birdPhysics g) =
     (if birdY g + min (birdVelocity g + 0.2) 10 < 30 then 0 else min (birdVelocity g + 0.2) 10)"
  by (simp add: birdPhysics_def Let_def game_consts min_def)

lemma birdPhysics_birdY: "30 \<le> birdY (birdPhysics g) \<and> birdY (birdPhysics g) \<le> 450"
  by (simp add: birdPhysics_def Let_def game_consts)

lemma birdPhysics_other:
  "lastFlapTime (birdPhysics g) = lastFlapTime g"
  "gameStarted (birdPhysics g) = gameStarted g"
  by (simp_all add: birdPhysics_def Let_def)

lemma simulate_append: "simulate (xs @ ys) g = simulate ys (simulate xs g)"
  by (induction xs g rule: simulate.induct) simp_all

lemma flap_velocity_lower: "- 7 \<le> birdVelocity g \<Longrightarrow> - 7 \<le> birdVelocity (flap now g)"
  by (simp add: flap_def game_consts)

lemma update_velocity_lower: "- 7 \<le> birdVelocity g \<Longrightarrow> - 7 \<le> birdVelocity (update rnd now g)"
  by (simp add: update_bird birdPhysics_velocity min_def)

lemma simulate_velocity_lower:
  "- 7 \<le> birdVelocity g \<Longrightarrow> - 7 \<le> birdVelocity (simulate ins g)"
  by (induction ins g rule: simulate.induct)
     (simp_all add: flap_velocity_lower update_velocity_lower)

section \<open>Frames without a face\<close>

lemma processResults_noFace: "noFace r \<Longrightarrow> processResults r d = (d\<lparr>smileScore := 0\<rparr>, None)"
  by (auto simp: noFace_def processResults_def split: option.splits list.splits)

text \<open>
  Claim C1, as amended. On a frame without a face (\<open>faceBlendshapes\<close> absent or empty)
  \<open>processResults\<close> sets \<open>smileScore\<close> to 0 and returns: nothing is pushed into the
  buffer, the hysteresis is not evaluated and the callback is not invoked. After any
  number of such frames the detector is the one before them but for \<open>smileScore\<close>, so
  its buffer and its \<open>isSmiling\<close> are as they were: an Active detector stays Active.
\<close>

theorem no_face_leaves_buffer_and_state:
  assumes "\<forall>r\<in>set rs. noFace r"
  shows "processAll rs d = (if rs = [] then d else d\<lparr>smileScore := 0\<rparr>) \<and>
         processCallbacks rs d = replicate (length rs) None \<and>
         smileBuffer (processAll rs d) = smileBuffer d \<and>
         isSmiling (processAll rs d) = isSmiling d"
proof -
  from assms
  have "processAll rs d = (if rs = [] then d else d\<lparr>smileScore := 0\<rparr>) \<and>
        processCallbacks rs d = replicate (length rs) None"
  proof (induction rs arbitrary: d)
    case Nil
    then show ?case by simp
  next
    case (Cons r rs)
    then have r: "processResults r d = (d\<lparr>smileScore := 0\<rparr>, None)"
      by (simp add: processResults_noFace)
    from Cons have "processAll rs (d\<lparr>smileScore := 0\<rparr>) =
         (if rs = [] then d\<lparr>smileScore := 0\<rparr> else d\<lparr>smileScore := 0, smileScore := 0\<rparr>)
       \<and> processCallbacks rs (d\<lparr>smileScore := 0\<rparr>) = replicate (length rs) None"
      by simp
    then show ?case using r by simp
  qed
  then show ?thesis by simp
qed

theorem no_face_leaves_buffer_and_state_witness:
  "noFace \<lparr>faceBlendshapes = None\<rparr> \<and> noFace \<lparr>faceBlendshapes = Some []\<rparr> \<and>
   processAll [\<lparr>faceBlendshapes = None\<rparr>, \<lparr>faceBlendshapes = Some []\<rparr>]
     \<lparr>smileScore = 0.9, isSmiling = True, smileBuffer = [0.9], onSmileChange = True\<rparr> =
     \<lparr>smileScore = 0, isSmiling = True, smileBuffer = [0.9], onSmileChange = True\<rparr> \<and>
   processCallbacks [\<lparr>faceBlendshapes = None\<rparr>, \<lparr>faceBlendshapes = Some []\<rparr>]
     \<lparr>smileScore = 0.9, isSmiling = True, smileBuffer = [0.9], onSmileChange = True\<rparr> =
     [None, None]"
  using no_face_leaves_buffer_and_state
    [of "[\<lparr>faceBlendshapes = None\<rparr>, \<lparr>faceBlendshapes = Some []\<rparr>]"
        "\<lparr>smileScore = 0.9, isSmiling = True, smileBuffer = [0.9], onSmileChange = True\<rparr>"]
  by (simp add: noFace_def)

text \<open>
  The claim as stated fails: after five scores 0.9 the detector is Active with the
  buffer full of 0.9; six frames without a face later it is still Active and the buffer
  is unchanged, while six pushed zeros would have emptied the window and reset it.
\<close>

theorem no_face_not_ingested_counterexample:
  "isSmiling (detectAll [0.9, 0.9, 0.9, 0.9, 0.9] FaceDetector_new) \<and>
   isSmiling (processAll
      [\<lparr>faceBlendshapes = None\<rparr>, \<lparr>faceBlendshapes = Some []\<rparr>, \<lparr>faceBlendshapes = None\<rparr>,
       \<lparr>faceBlendshapes = None\<rparr>, \<lparr>faceBlendshapes = None\<rparr>, \<lparr>faceBlendshapes = None\<rparr>]
      (detectAll [0.9, 0.9, 0.9, 0.9, 0.9] FaceDetector_new)) \<and>
   smileBuffer (processAll
      [\<lparr>faceBlendshapes = None\<rparr>, \<lparr>faceBlendshapes = Some []\<rparr>, \<lparr>faceBlendshapes = None\<rparr>,
       \<lparr>faceBlendshapes = None\<rparr>, \<lparr>faceBlendshapes = None\<rparr>, \<lparr>faceBlendshapes = None\<rparr>]
      (detectAll [0.9, 0.9, 0.9, 0.9, 0.9] FaceDetector_new)) = [0.9, 0.9, 0.9, 0.9, 0.9] \<and>
   \<not> isSmiling (detectAll [0, 0, 0, 0, 0, 0]
      (detectAll [0.9, 0.9, 0.9, 0.9, 0.9] FaceDetector_new))"
  by (simp add: detector_defs processResults_def)

section \<open>The callback\<close>

text \<open>
  Claim C2, as amended. \<open>detectSmile\<close> invokes the registered callback on every change
  of \<open>isSmiling\<close>, in both directions, with the new value as argument: \<open>True\<close> on
  Idle to Active, \<open>False\<close> on Active to Idle. The game's callback calls \<open>flap\<close> only
  for the argument \<open>True\<close>, so the game sees a flap request on the transition from Idle
  to Active only.
\<close>

theorem callback_on_every_change:
  "snd (detectSmile sc d) =
     (if onSmileChange d \<and> isSmiling (fst (detectSmile sc d)) \<noteq> isSmiling d
      then Some (isSmiling (fst (detectSmile sc d))) else None) \<and>
   deliver (snd (detectSmile sc d)) now g =
     (if onSmileChange d \<and> \<not> isSmiling d \<and> isSmiling (fst (detectSmile sc d))
      then flap now g else g)"
  by (auto simp: detectSmile_def Let_def deliver_def smileCallback_def)

theorem callback_on_every_change_witness:
  "snd (detectSmile 0
     \<lparr>smileScore = 0.45, isSmiling = True, smileBuffer = [0.9, 0], onSmileChange = True\<rparr>) =
     Some False \<and>
   deliver (snd (detectSmile 0
     \<lparr>smileScore = 0.45, isSmiling = True, smileBuffer = [0.9, 0], onSmileChange = True\<rparr>))
     1000 (beginGameplay (FlappyGame_new True True False)) =
     beginGameplay (FlappyGame_new True True False)"
  using callback_on_every_change
    [of 0
        "\<lparr>smileScore = 0.45, isSmiling = True, smileBuffer = [0.9, 0], onSmileChange = True\<rparr>"
        1000 "beginGameplay (FlappyGame_new True True False)"]
  by (simp add: detector_defs)

text \<open>
  The claim as stated fails: with a callback registered, the scores 0.9, 0, 0 from a new
  detector invoke it with \<open>True\<close> at the first score and with \<open>False\<close> at the third,
  where the smoothed score 0.3 takes the detector back to Idle.
\<close>

theorem callback_on_reset_counterexample:
  "snd (detectSmile 0.9 (FaceDetector_new\<lparr>onSmileChange := True\<rparr>)) = Some True \<and>
   isSmiling (detectAll [0.9, 0] (FaceDetector_new\<lparr>onSmileChange := True\<rparr>)) \<and>
   smileScore (fst (detectSmile 0
     (detectAll [0.9, 0] (FaceDetector_new\<lparr>onSmileChange := True\<rparr>)))) = 0.3 \<and>
   \<not> isSmiling (fst (detectSmile 0
     (detectAll [0.9, 0] (FaceDetector_new\<lparr>onSmileChange := True\<rparr>)))) \<and>
   snd (detectSmile 0
     (detectAll [0.9, 0] (FaceDetector_new\<lparr>onSmileChange := True\<rparr>))) = Some False"
  by (simp add: detector_defs)

section \<open>The dead zone\<close>

text \<open>
  Claim C4. If in a run of \<open>detectSmile\<close> every smoothed score lies strictly between
  0.4 and 0.6, then \<open>isSmiling\<close> never changes: it has its initial value before and
  after every call and at the end, no call is a transition to Active and the callback
  is never invoked.
\<close>

theorem dead_zone_stable:
  assumes "\<forall>e\<in>set (trace scs d). 0.4 < smoothedOf e \<and> smoothedOf e < 0.6"
  shows "isSmiling (detectAll scs d) = isSmiling d \<and>
         (\<forall>e\<in>set (trace scs d).
            isSmiling (fst e) = isSmiling d \<and> isSmiling (fst (snd e)) = isSmiling d \<and>
            \<not> fired e \<and> snd (snd e) = None)"
  using assms
proof (induction scs arbitrary: d)
  case Nil
  then show ?case by simp
next
  case (Cons sc scs)
  let ?d' = "fst (detectSmile sc d)"
  from Cons.prems have z: "0.4 < smileScore ?d'" "smileScore ?d' < 0.6"
    by (simp_all add: smoothedOf_def)
  then have same: "isSmiling ?d' = isSmiling d"
    by (simp add: detectSmile_state hysteresis_dead_zone)
  from Cons.prems have "\<forall>e\<in>set (trace scs ?d'). 0.4 < smoothedOf e \<and> smoothedOf e < 0.6"
    by simp
  from Cons.IH [OF this] same show ?case
    by (simp add: fired_def detectSmile_callback)
qed

theorem dead_zone_stable_witness:
  "map smoothedOf (trace [0.2, 0.5]
     \<lparr>smileScore = 0.9, isSmiling = True, smileBuffer = [0.9], onSmileChange = True\<rparr>) =
     [0.55, 1.6 / 3] \<and>
   isSmiling (detectAll [0.2, 0.5]
     \<lparr>smileScore = 0.9, isSmiling = True, smileBuffer = [0.9], onSmileChange = True\<rparr>) \<and>
   map (\<lambda>e. snd (snd e)) (trace [0.2, 0.5]
     \<lparr>smileScore = 0.9, isSmiling = True, smileBuffer = [0.9], onSmileChange = True\<rparr>) =
     [None, None]"
proof -
  let ?d = "\<lparr>smileScore = 0.9, isSmiling = True, smileBuffer = [0.9], onSmileChange = True\<rparr>"
  have s: "map smoothedOf (trace [0.2, 0.5] ?d) = [0.55, 1.6 / 3]"
    by (simp add: detector_defs smoothedOf_def)
  have "\<forall>x\<in>set (map smoothedOf (trace [0.2, 0.5] ?d)). 0.4 < x \<and> x < 0.6"
    unfolding s by simp
  then have h: "\<forall>e\<in>set (trace [0.2, 0.5] ?d). 0.4 < smoothedOf e \<and> smoothedOf e < 0.6"
    by simp
  have c: "map (\<lambda>e. snd (snd e)) (trace [0.2, 0.5] ?d) = [None, None]"
    by (simp add: detector_defs)
  from dead_zone_stable [OF h] have a: "isSmiling (detectAll [0.2, 0.5] ?d)"
    by simp
  from s a c show ?thesis by (intro conjI)
qed

section \<open>One event per crossing\<close>

text \<open>
  Claim C5. In every run of \<open>detectSmile\<close>, a call is a gesture event (a transition
  to Active) exactly when the detector was Idle and the smoothed score exceeds 0.6, and
  the callback is then invoked with \<open>True\<close> if one is registered. An Active detector
  stays Active exactly when the smoothed score is not below 0.4, and returns to Idle
  when it is, so that the next score above 0.6 fires again. Each call starts from the
  detector the call before it left, the first from the initial one. After an event, no
  further event fires as long as the smoothed score does not fall below 0.4 (so none
  while it stays above 0.6); and between an event and the next one there is a call
  whose smoothed score is below 0.4 and takes the detector from Active back to Idle,
  the next event itself having a smoothed score above 0.6.
\<close>

theorem gesture_once_per_crossing:
  "(\<forall>e\<in>set (trace scs d).
      (fired e \<longleftrightarrow> \<not> isSmiling (fst e) \<and> 0.6 < smoothedOf e) \<and>
      (isSmiling (fst e) \<longrightarrow> (isSmiling (fst (snd e)) \<longleftrightarrow> \<not> smoothedOf e < 0.4)) \<and>
      (snd (snd e) = Some True \<longleftrightarrow> fired e \<and> onSmileChange (fst e))) \<and>
   (\<forall>e rest. trace scs d = e # rest \<longrightarrow> fst e = d) \<and>
   (\<forall>pre e1 e2 post. trace scs d = pre @ [e1, e2] @ post \<longrightarrow> fst e2 = fst (snd e1)) \<and>
   (\<forall>pre e1 rest. trace scs d = pre @ [e1] @ rest \<and> fired e1 \<longrightarrow>
      ((\<forall>m\<in>set rest. \<not> smoothedOf m < 0.4) \<longrightarrow> (\<forall>m\<in>set rest. \<not> fired m)) \<and>
      (\<forall>mid e2 post. rest = mid @ [e2] @ post \<and> fired e2 \<longrightarrow>
         0.6 < smoothedOf e2 \<and>
         (\<exists>m\<in>set mid. smoothedOf m < 0.4 \<and> isSmiling (fst m) \<and> \<not> isSmiling (fst (snd m)))))"
proof -
  have each: "(fired e \<longleftrightarrow> \<not> isSmiling (fst e) \<and> 0.6 < smoothedOf e) \<and>
      (isSmiling (fst e) \<longrightarrow> (isSmiling (fst (snd e)) \<longleftrightarrow> \<not> smoothedOf e < 0.4)) \<and>
      (snd (snd e) = Some True \<longleftrightarrow> fired e \<and> onSmileChange (fst e))"
    if "e \<in> set (trace scs d)" for e
  proof -
    from trace_elem [OF that] obtain sc d0
      where e: "e = (d0, fst (detectSmile sc d0), snd (detectSmile sc d0))"
      by blast
    show ?thesis
      unfolding e fired_def smoothedOf_def
      using detectSmile_state [of sc d0] detectSmile_callback [of sc d0]
      by (cases "isSmiling d0") (auto simp: hysteresis_rise hysteresis_fall)
  qed
  have first: "fst e = d" if "trace scs d = e # rest" for e rest
    using that by (elim trace_Cons) simp
  have chain: "fst e2 = fst (snd e1)"
    if "trace scs d = pre @ [e1, e2] @ post" for pre e1 e2 post
  proof -
    from that have "trace scs d = pre @ (e1 # e2 # post)" by simp
    then obtain xs ys where "e1 # e2 # post = trace ys (detectAll xs d)"
      by (elim trace_split) simp
    then obtain sc zs
      where e1: "e1 = (detectAll xs d, fst (detectSmile sc (detectAll xs d)),
          snd (detectSmile sc (detectAll xs d)))"
        and r: "e2 # post = trace zs (fst (detectSmile sc (detectAll xs d)))"
      by (metis trace_Cons)
    from r have "fst e2 = fst (detectSmile sc (detectAll xs d))"
      by (metis trace_Cons fst_conv)
    with e1 show ?thesis by simp
  qed
  have after: "((\<forall>m\<in>set rest. \<not> smoothedOf m < 0.4) \<longrightarrow> (\<forall>m\<in>set rest. \<not> fired m)) \<and>
      (\<forall>mid e2 post. rest = mid @ [e2] @ post \<and> fired e2 \<longrightarrow>
         0.6 < smoothedOf e2 \<and>
         (\<exists>m\<in>set mid. smoothedOf m < 0.4 \<and> isSmiling (fst m) \<and> \<not> isSmiling (fst (snd m))))"
    if "trace scs d = pre @ [e1] @ rest" "fired e1" for pre e1 rest
  proof -
    from that have t: "trace scs d = pre @ e1 # rest" by simp
    from fired_in_trace [OF t that(2)] obtain ys
      where rest: "rest = trace ys (fst (snd e1))" and act: "isSmiling (fst (snd e1))"
      by blast
    have quiet: "(\<forall>m\<in>set rest. \<not> smoothedOf m < 0.4) \<longrightarrow> (\<forall>m\<in>set rest. \<not> fired m)"
      using stays_active [OF act, of ys] rest by blast
    have again: "0.6 < smoothedOf e2 \<and>
        (\<exists>m\<in>set mid. smoothedOf m < 0.4 \<and> isSmiling (fst m) \<and> \<not> isSmiling (fst (snd m)))"
      if "rest = mid @ [e2] @ post" "fired e2" for mid e2 post
    proof -
      from that rest have r: "trace ys (fst (snd e1)) = mid @ e2 # post" by simp
      from fired_in_trace [OF r that(2)] falls_before_next [OF act r that(2)]
      show ?thesis by blast
    qed
    from quiet again show ?thesis by blast
  qed
  from each first chain after show ?thesis by blast
qed

theorem gesture_once_per_crossing_witness:
  "map fired (trace [0.9, 0.9, 0, 0, 0, 0.9, 0.9, 0.9, 0.9] FaceDetector_new) =
     [True, False, False, False, False, False, False, False, True] \<and>
   fired (hd (trace [0.9, 0.9, 0, 0, 0, 0.9, 0.9, 0.9, 0.9] FaceDetector_new)) \<and>
   fired (last (trace [0.9, 0.9, 0, 0, 0, 0.9, 0.9, 0.9, 0.9] FaceDetector_new)) \<and>
   (\<exists>m\<in>set (butlast (tl (trace [0.9, 0.9, 0, 0, 0, 0.9, 0.9, 0.9, 0.9] FaceDetector_new))).
      smoothedOf m < 0.4 \<and> isSmiling (fst m) \<and> \<not> isSmiling (fst (snd m))) \<and>
   isSmiling (fst (trace [0.9, 0.9, 0, 0, 0, 0.9, 0.9, 0.9, 0.9] FaceDetector_new ! 4)) \<and>
   smoothedOf (trace [0.9, 0.9, 0, 0, 0, 0.9, 0.9, 0.9, 0.9] FaceDetector_new ! 4) < 0.4 \<and>
   \<not> isSmiling (fst (snd (trace [0.9, 0.9, 0, 0, 0, 0.9, 0.9, 0.9, 0.9] FaceDetector_new ! 4)))"
proof -
  let ?tr = "trace [0.9, 0.9, 0, 0, 0, 0.9, 0.9, 0.9, 0.9] FaceDetector_new"
  have s1: "?tr = [] @ [hd ?tr] @ tl ?tr"
    by simp
  have s2: "tl ?tr = butlast (tl ?tr) @ [last ?tr] @ []"
    by simp
  have f: "map fired ?tr = [True, False, False, False, False, False, False, False, True]"
    by (simp add: detector_defs fired_def)
  have f1: "fired (hd ?tr)"
    by (simp add: detector_defs fired_def)
  have f2: "fired (last ?tr)"
    by (simp add: detector_defs fired_def)
  from gesture_once_per_crossing [of "[0.9, 0.9, 0, 0, 0, 0.9, 0.9, 0.9, 0.9]" FaceDetector_new]
  have "\<forall>pre e1 rest. ?tr = pre @ [e1] @ rest \<and> fired e1 \<longrightarrow>
      (\<forall>mid e2 post. rest = mid @ [e2] @ post \<and> fired e2 \<longrightarrow>
         (\<exists>m\<in>set mid. smoothedOf m < 0.4 \<and> isSmiling (fst m) \<and> \<not> isSmiling (fst (snd m))))"
    by blast
  with s1 f1 s2 f2
  have "\<exists>m\<in>set (butlast (tl ?tr)).
      smoothedOf m < 0.4 \<and> isSmiling (fst m) \<and> \<not> isSmiling (fst (snd m))"
    by blast
  note between = this
  have len: "4 < length ?tr"
    by (simp add: trace_length)
  then have mem: "?tr ! 4 \<in> set ?tr"
    by (rule nth_mem)
  have a: "isSmiling (fst (?tr ! 4))" and b: "smoothedOf (?tr ! 4) < 0.4"
    by (simp_all add: detector_defs smoothedOf_def)
  from gesture_once_per_crossing [of "[0.9, 0.9, 0, 0, 0, 0.9, 0.9, 0.9, 0.9]" FaceDetector_new]
    mem a b
  have c: "\<not> isSmiling (fst (snd (?tr ! 4)))"
    by blast
  from f f1 f2 between a b c show ?thesis by (intro conjI)
qed

section \<open>The scenario\<close>

text \<open>
  Claim C6. From a new detector the scores 0, 0, 0, 0, 0, 0.9, 0.9, 0.9, 0.9, 0.9 give
  the smoothed scores 0, 0, 0, 0, 0, 0.18, 0.36, 0.54, 0.72, 0.9; exactly one call is a
  transition from Idle to Active, the ninth, which is the fourth score 0.9 (the
  smoothed score is 0.54 after the third and 0.72 after the fourth); with a callback
  registered it is invoked once, there, with \<open>True\<close>.
\<close>

theorem scenario_fires_at_fourth_sample:
  "map fired (trace [0, 0, 0, 0, 0, 0.9, 0.9, 0.9, 0.9, 0.9] FaceDetector_new) =
     [False, False, False, False, False, False, False, False, True, False] \<and>
   map smoothedOf (trace [0, 0, 0, 0, 0, 0.9, 0.9, 0.9, 0.9, 0.9] FaceDetector_new) =
     [0, 0, 0, 0, 0, 0.18, 0.36, 0.54, 0.72, 0.9] \<and>
   map (\<lambda>e. snd (snd e))
     (trace [0, 0, 0, 0, 0, 0.9, 0.9, 0.9, 0.9, 0.9] (FaceDetector_new\<lparr>onSmileChange := True\<rparr>)) =
     [None, None, None, None, None, None, None, None, Some True, None]"
  by (simp add: detector_defs fired_def smoothedOf_def)

section \<open>Flap requests\<close>

text \<open>
  Claim C7. \<open>flap\<close> changes the game only when it is running (\<open>gameStarted\<close> and not
  \<open>gameOver\<close>) and at least 500 ms have passed since \<open>lastFlapTime\<close>; it then sets
  the velocity to \<open>- 7\<close>, whatever it was, and \<open>lastFlapTime\<close> to the current time, and
  nothing else. Otherwise the game is returned as it was, velocity and \<open>lastFlapTime\<close>
  included. A tick does not write \<open>lastFlapTime\<close>, so a request less than 500 ms
  after an accepted one, with a tick in between, is ignored.
\<close>

theorem flap_gate:
  "(flap now g \<noteq> g \<longrightarrow>
      gameStarted g \<and> \<not> gameOver g \<and> 500 \<le> now - lastFlapTime g) \<and>
   (gameStarted g \<and> \<not> gameOver g \<and> 500 \<le> now - lastFlapTime g \<longrightarrow>
      flap now g = g\<lparr>birdVelocity := - 7, lastFlapTime := now\<rparr>) \<and>
   (\<not> (gameStarted g \<and> \<not> gameOver g \<and> 500 \<le> now - lastFlapTime g) \<longrightarrow>
      flap now g = g) \<and>
   lastFlapTime (update rnd t g) = lastFlapTime g \<and>
   (gameStarted g \<and> \<not> gameOver g \<and> 500 \<le> now - lastFlapTime g \<and> later - now < 500 \<longrightarrow>
      flap later (update rnd t (flap now g)) = update rnd t (flap now g))"
proof -
  have a: "lastFlapTime (update rnd t h) = lastFlapTime h" for h
    by (simp add: update_bird birdPhysics_other)
  have rej: "flap now g = g"
    if "\<not> (gameStarted g \<and> \<not> gameOver g \<and> 500 \<le> now - lastFlapTime g)"
    using that by (auto simp: flap_def game_consts)
  have acc: "flap now g = g\<lparr>birdVelocity := - 7, lastFlapTime := now\<rparr>"
    if "gameStarted g \<and> \<not> gameOver g \<and> 500 \<le> now - lastFlapTime g"
    using that by (simp add: flap_def game_consts)
  have deb: "flap later (update rnd t (flap now g)) = update rnd t (flap now g)"
    if "gameStarted g \<and> \<not> gameOver g \<and> 500 \<le> now - lastFlapTime g \<and> later - now < 500"
  proof -
    have "lastFlapTime (update rnd t (flap now g)) = now"
      using that by (simp add: a acc)
    with that show ?thesis
      by (simp add: flap_def [of later] game_consts)
  qed
  from rej acc deb a [of g] show ?thesis
    by blast
qed

theorem flap_gate_witness:
  "gameStarted (beginGameplay (FlappyGame_new True True False)) \<and>
   \<not> gameOver (beginGameplay (FlappyGame_new True True False)) \<and>
   500 \<le> 1000 - lastFlapTime (beginGameplay (FlappyGame_new True True False)) \<and>
   1200 - 1000 < (500::int) \<and>
   flap 1000 (beginGameplay (FlappyGame_new True True False)) =
     (beginGameplay (FlappyGame_new True True False))\<lparr>birdVelocity := - 7, lastFlapTime := 1000\<rparr> \<and>
   flap 1200 (update 0.5 7 (flap 1000 (beginGameplay (FlappyGame_new True True False)))) =
     update 0.5 7 (flap 1000 (beginGameplay (FlappyGame_new True True False))) \<and>
   flap 1000 (FlappyGame_new True True False) = FlappyGame_new True True False"
proof -
  let ?g = "beginGameplay (FlappyGame_new True True False)"
  have h: "gameStarted ?g" "\<not> gameOver ?g" "500 \<le> 1000 - lastFlapTime ?g"
    "1200 - 1000 < (500::int)"
    by (simp_all add: beginGameplay_def FlappyGame_new_def)
  from flap_gate [of 1000 ?g "0.5" 7 1200] h
  have a: "flap 1000 ?g = ?g\<lparr>birdVelocity := - 7, lastFlapTime := 1000\<rparr>"
    and b: "flap 1200 (update 0.5 7 (flap 1000 ?g)) = update 0.5 7 (flap 1000 ?g)"
    by blast+
  have "\<not> gameStarted (FlappyGame_new True True False)"
    by (simp add: FlappyGame_new_def)
  with flap_gate [of 1000 "FlappyGame_new True True False"]
  have c: "flap 1000 (FlappyGame_new True True False) = FlappyGame_new True True False"
    by blast
  from h a b c show ?thesis by (intro conjI)
qed

section \<open>Terminal velocity\<close>

text \<open>
  Claim C8. After a tick the bird's velocity is at most 10, from any state, and so
  after any interleaving of ticks and flap requests that ends with a tick. The tick
  clamps on the upper side only: the new velocity is the old one plus 0.2, cut at 10,
  or 0 when the bird reached the ceiling; velocities below are left as they are. As
  \<open>flap\<close> sets \<open>- 7\<close>, a velocity that starts at or above \<open>- 7\<close> stays there.
\<close>

theorem terminal_velocity:
  "birdVelocity (update rnd now g) \<le> 10 \<and>
   birdVelocity (simulate (ins @ [Tick rnd now]) g) \<le> 10 \<and>
   birdVelocity (update rnd now g) =
     (if birdY g + min (birdVelocity g + 0.2) 10 < 30 then 0 else min (birdVelocity g + 0.2) 10) \<and>
   (- 7 \<le> birdVelocity g \<longrightarrow> - 7 \<le> birdVelocity (simulate ins g))"
proof -
  have u: "birdVelocity (update r n h) \<le> 10" for r n h
    by (simp add: update_bird birdPhysics_velocity)
  show ?thesis
    using u [of rnd now g] u [of rnd now "simulate ins g"] simulate_velocity_lower [of g ins]
    by (simp add: simulate_append update_bird birdPhysics_velocity)
qed

theorem terminal_velocity_witness:
  "- 7 \<le> birdVelocity ((beginGameplay (FlappyGame_new True True False))\<lparr>birdVelocity := 9.95\<rparr>) \<and>
   birdVelocity (update 0.5 1
      ((beginGameplay (FlappyGame_new True True False))\<lparr>birdVelocity := 9.95\<rparr>)) = 10 \<and>
   birdVelocity (simulate ([FlapRequest 1000] @ [Tick 0.5 1])
      ((beginGameplay (FlappyGame_new True True False))\<lparr>birdVelocity := 9.95\<rparr>)) \<le> 10 \<and>
   - 7 \<le> birdVelocity (simulate [FlapRequest 1000]
      ((beginGameplay (FlappyGame_new True True False))\<lparr>birdVelocity := 9.95\<rparr>))"
  using terminal_velocity [of "0.5" 1
      "(beginGameplay (FlappyGame_new True True False))\<lparr>birdVelocity := 9.95\<rparr>"
      "[FlapRequest 1000]"]
  by (simp add: beginGameplay_def FlappyGame_new_def game_consts)

section \<open>The end of a round\<close>

text \<open>
  Claim C9. \<open>handleGameOver\<close> makes the best score the maximum of the best score and
  the round's score. When the current round is below 3 it shows the round-over overlay
  and leaves the screens as they are; otherwise (the third round) it leaves the game
  screen for the CTA screen and does not show the overlay. \<open>gameLoop\<close> calls it when
  the tick has set \<open>gameOver\<close>.
\<close>

theorem round_end:
  "bestScore (handleGameOver g) = max (bestScore g) (score g) \<and>
   (currentRound g < 3 \<longrightarrow>
      handleGameOver g =
        g\<lparr>gameStarted := False, bestScore := max (bestScore g) (score g),
          roundOverOverlay_hidden := False\<rparr>) \<and>
   (\<not> currentRound g < 3 \<longrightarrow>
      handleGameOver g =
        g\<lparr>gameStarted := False, bestScore := max (bestScore g) (score g),
          gameScreen_active := False, ctaScreen_active := True\<rparr>) \<and>
   (gameStarted g \<and> 1000 / 30 \<le> t - lastGameLoopTime g \<and>
    gameOver (update rnd now (g\<lparr>lastGameLoopTime := t\<rparr>)) \<longrightarrow>
      gameLoop t rnd now g = handleGameOver (update rnd now (g\<lparr>lastGameLoopTime := t\<rparr>)))"
  by (auto simp: handleGameOver_def showCTAScreen_def gameLoop_def Let_def maxRounds_def max_def)

theorem round_end_witness:
  "gameStarted ((beginGameplay (FlappyGame_new True True False))
      \<lparr>birdY := 449, birdVelocity := 5, currentRound := 2\<rparr>) \<and>
   1000 / 30 \<le> 100 - lastGameLoopTime ((beginGameplay (FlappyGame_new True True False))
      \<lparr>birdY := 449, birdVelocity := 5, currentRound := 2\<rparr>) \<and>
   gameOver (update 0.5 1 ((beginGameplay (FlappyGame_new True True False))
      \<lparr>birdY := 449, birdVelocity := 5, currentRound := 2\<rparr>\<lparr>lastGameLoopTime := 100\<rparr>)) \<and>
   \<not> roundOverOverlay_hidden (gameLoop 100 0.5 1 ((beginGameplay (FlappyGame_new True True False))
      \<lparr>birdY := 449, birdVelocity := 5, currentRound := 2\<rparr>)) \<and>
   \<not> ctaScreen_active (gameLoop 100 0.5 1 ((beginGameplay (FlappyGame_new True True False))
      \<lparr>birdY := 449, birdVelocity := 5, currentRound := 2\<rparr>)) \<and>
   bestScore (handleGameOver ((FlappyGame_new True True False)
      \<lparr>score := 30, bestScore := 10, currentRound := 2\<rparr>)) = 30 \<and>
   ctaScreen_active (handleGameOver ((FlappyGame_new True True False)
      \<lparr>score := 30, bestScore := 40, currentRound := 3\<rparr>)) \<and>
   roundOverOverlay_hidden (handleGameOver ((FlappyGame_new True True False)
      \<lparr>score := 30, bestScore := 40, currentRound := 3\<rparr>)) \<and>
   bestScore (handleGameOver ((FlappyGame_new True True False)
      \<lparr>score := 30, bestScore := 40, currentRound := 3\<rparr>)) = 40"
proof -
  let ?g = "(beginGameplay (FlappyGame_new True True False))
      \<lparr>birdY := 449, birdVelocity := 5, currentRound := 2\<rparr>"
  have s: "gameStarted ?g" and e: "1000 / 30 \<le> 100 - lastGameLoopTime ?g"
    by (simp_all add: beginGameplay_def FlappyGame_new_def)
  have o: "gameOver (update 0.5 1 (?g\<lparr>lastGameLoopTime := 100\<rparr>))"
    by (rule update_gameOver)
      (simp add: birdPhysics_def beginGameplay_def FlappyGame_new_def game_consts)
  have r: "currentRound (update 0.5 1 (?g\<lparr>lastGameLoopTime := 100\<rparr>)) < 3"
    by (simp add: update_def beforeCollisionCheck_def birdPhysics_def spawnStep_def
        spawnObstacle_def stepObstacle_def beginGameplay_def FlappyGame_new_def game_consts
        Let_def)
  have c: "\<not> ctaScreen_active (update 0.5 1 (?g\<lparr>lastGameLoopTime := 100\<rparr>))"
    by (simp add: update_def beforeCollisionCheck_def birdPhysics_def spawnStep_def
        spawnObstacle_def stepObstacle_def beginGameplay_def FlappyGame_new_def game_consts
        Let_def)
  from round_end [of "update 0.5 1 (?g\<lparr>lastGameLoopTime := 100\<rparr>)" 100 "0.5" 1] r c
    round_end [of ?g 100 "0.5" 1] s e o
  have l: "\<not> roundOverOverlay_hidden (gameLoop 100 0.5 1 ?g)"
    "\<not> ctaScreen_active (gameLoop 100 0.5 1 ?g)"
    by simp_all
  from round_end [of "(FlappyGame_new True True False)\<lparr>score := 30, bestScore := 10, currentRound := 2\<rparr>"]
  have b: "bestScore (handleGameOver ((FlappyGame_new True True False)
      \<lparr>score := 30, bestScore := 10, currentRound := 2\<rparr>)) = 30"
    by simp
  from round_end [of "(FlappyGame_new True True False)\<lparr>score := 30, bestScore := 40, currentRound := 3\<rparr>"]
  have f: "ctaScreen_active (handleGameOver ((FlappyGame_new True True False)
      \<lparr>score := 30, bestScore := 40, currentRound := 3\<rparr>))"
    "roundOverOverlay_hidden (handleGameOver ((FlappyGame_new True True False)
      \<lparr>score := 30, bestScore := 40, currentRound := 3\<rparr>))"
    "bestScore (handleGameOver ((FlappyGame_new True True False)
      \<lparr>score := 30, bestScore := 40, currentRound := 3\<rparr>)) = 40"
    by (simp_all add: FlappyGame_new_def)
  from s e o l b f show ?thesis by (intro conjI)
qed

section \<open>The screen-bounds test of the collision check\<close>

text \<open>
  Claim C10. When \<open>update\<close> calls \<open>checkCollision\<close>, the bird's position is between
  30 and 450, whatever the state before the tick; so the top of the shrunk box is at
  least 6 and its bottom at most 474, the screen-bounds test is false, and
  \<open>checkCollision\<close> returns what the loop over the obstacles returns: the tick sets
  \<open>gameOver\<close> through the collision check only on an obstacle hit.
\<close>

theorem screen_bounds_unreachable:
  "30 \<le> birdY (beforeCollisionCheck rnd now g) \<and>
   birdY (beforeCollisionCheck rnd now g) \<le> 450 \<and>
   6 \<le> safeTop (beforeCollisionCheck rnd now g) \<and>
   safeBottom (beforeCollisionCheck rnd now g) \<le> 474 \<and>
   \<not> outOfScreen (beforeCollisionCheck rnd now g) \<and>
   checkCollision (beforeCollisionCheck rnd now g) =
     hitsObstacle (beforeCollisionCheck rnd now g) (obstacles (beforeCollisionCheck rnd now g)) \<and>
   update rnd now g =
     (if hitsObstacle (beforeCollisionCheck rnd now g) (obstacles (beforeCollisionCheck rnd now g))
      then (beforeCollisionCheck rnd now g)\<lparr>gameOver := True\<rparr>
      else beforeCollisionCheck rnd now g)"
proof -
  let ?g = "beforeCollisionCheck rnd now g"
  have y: "30 \<le> birdY ?g" "birdY ?g \<le> 450"
    using birdPhysics_birdY [of g] by (simp_all add: beforeCollisionCheck_bird)
  then have s: "6 \<le> safeTop ?g" "safeBottom ?g \<le> 474"
    by (simp_all add: safeTop_def safeBottom_def game_consts)
  then have o: "\<not> outOfScreen ?g"
    by (simp add: outOfScreen_def game_consts)
  then have c: "checkCollision ?g = hitsObstacle ?g (obstacles ?g)"
    by (simp add: checkCollision_def)
  show ?thesis
    using y s o c by (simp add: update_def Let_def)
qed

theorem screen_bounds_unreachable_witness:
  "birdY (beforeCollisionCheck 0.5 1
     ((beginGameplay (FlappyGame_new True True False))\<lparr>birdY := 449, birdVelocity := 5\<rparr>)) = 450 \<and>
   safeBottom (beforeCollisionCheck 0.5 1
     ((beginGameplay (FlappyGame_new True True False))\<lparr>birdY := 449, birdVelocity := 5\<rparr>)) = 474 \<and>
   birdY (beforeCollisionCheck 0.5 1
     ((beginGameplay (FlappyGame_new True True False))\<lparr>birdY := 31, birdVelocity := - 7\<rparr>)) = 30 \<and>
   safeTop (beforeCollisionCheck 0.5 1
     ((beginGameplay (FlappyGame_new True True False))\<lparr>birdY := 31, birdVelocity := - 7\<rparr>)) = 6 \<and>
   checkCollision (beforeCollisionCheck 0.5 1
     ((beginGameplay (FlappyGame_new True True False))\<lparr>birdY := 449, birdVelocity := 5\<rparr>)) = False"
proof -
  let ?lo = "(beginGameplay (FlappyGame_new True True False))\<lparr>birdY := 449, birdVelocity := 5\<rparr>"
  let ?hi = "(beginGameplay (FlappyGame_new True True False))\<lparr>birdY := 31, birdVelocity := - 7\<rparr>"
  have y: "birdY (beforeCollisionCheck 0.5 1 ?lo) = 450" "birdY (beforeCollisionCheck 0.5 1 ?hi) = 30"
    by (simp_all add: beforeCollisionCheck_bird birdPhysics_def beginGameplay_def
        FlappyGame_new_def game_consts)
  then have s: "safeBottom (beforeCollisionCheck 0.5 1 ?lo) = 474"
    "safeTop (beforeCollisionCheck 0.5 1 ?hi) = 6"
    by (simp_all add: safeTop_def safeBottom_def game_consts)
  have h: "\<not> hitsObstacle (beforeCollisionCheck 0.5 1 ?lo)
      (obstacles (beforeCollisionCheck 0.5 1 ?lo))"
    by (simp add: beforeCollisionCheck_def birdPhysics_def spawnStep_def
        spawnObstacle_def stepObstacle_def beginGameplay_def FlappyGame_new_def
        safeLeft_def safeRight_def game_consts)
  from screen_bounds_unreachable [of "0.5" 1 ?lo] h
  have c: "checkCollision (beforeCollisionCheck 0.5 1 ?lo) = False"
    by simp
  from y s c show ?thesis by (intro conjI)
qed

end
